theory Spec2Isabelle
  imports Complex_Main
begin

section \<open>JavaScript values handled by the toolbar components\<close>

text \<open>
  A JavaScript \<^verbatim>\<open>number\<close> is an IEEE double. The components only test a number for
  truthiness and hand it on, so a finite double is kept as the real it denotes; the
  negative zero, NaN and the two infinities are values of their own.
\<close>

datatype number = Finite real | NegZero | NaN | Infinity | NegInfinity

text \<open>ToBoolean on a number: \<^verbatim>\<open>+0\<close>, \<^verbatim>\<open>-0\<close> and \<^verbatim>\<open>NaN\<close> are falsy.\<close>

fun ToBoolean :: "number \<Rightarrow> bool" where
  "ToBoolean (Finite r) = (r \<noteq> 0)"
| "ToBoolean NegZero = False"
| "ToBoolean NaN = False"
| "ToBoolean Infinity = True"
| "ToBoolean NegInfinity = True"

text \<open>
  An optional prop is an \<open>option\<close>: \<open>None\<close> is \<^verbatim>\<open>undefined\<close> (the key is absent, or
  holds \<^verbatim>\<open>undefined\<close>), which is falsy.
\<close>

definition truthy :: "number option \<Rightarrow> bool" where
  "truthy w = (case w of None \<Rightarrow> False | Some n \<Rightarrow> ToBoolean n)"

text \<open>
  \<^verbatim>\<open>React.ReactNode\<close>. \<open>'o\<close> is the type of the objects the module never looks into:
  React elements, function values, platform colours.
\<close>

datatype 'o ReactNode =
    Undefined
  | Null
  | Boolean bool
  | Str string
  | Number number
  | Element 'o
  | Array "'o ReactNode list"

text \<open>\<^verbatim>\<open>Array.prototype.join\<close> on strings.\<close>

fun join :: "string \<Rightarrow> string list \<Rightarrow> string" where
  "join sep [] = []"
| "join sep [x] = x"
| "join sep (x # y # ys) = x @ sep @ join sep (y # ys)"

text \<open>
  \<^verbatim>\<open>String(value)\<close> on a \<^verbatim>\<open>ReactNode\<close>. An array is joined with commas, \<^verbatim>\<open>null\<close> and
  \<^verbatim>\<open>undefined\<close> entries giving the empty string; a React element is a plain object.
  \<^verbatim>\<open>Number::toString\<close> is the engine's and is the parameter \<open>nts\<close>.
\<close>

fun String :: "(number \<Rightarrow> string) \<Rightarrow> 'o ReactNode \<Rightarrow> string" where
  "String nts Undefined = ''undefined''"
| "String nts Null = ''null''"
| "String nts (Boolean b) = (if b then ''true'' else ''false'')"
| "String nts (Str s) = s"
| "String nts (Number n) = nts n"
| "String nts (Element e) = ''[object Object]''"
| "String nts (Array xs) =
     join '','' (map (\<lambda>x. case x of Undefined \<Rightarrow> [] | Null \<Rightarrow> [] | _ \<Rightarrow> String nts x) xs)"

text \<open>\<^verbatim>\<open>ColorValue\<close> of react-native: a colour string or an opaque platform colour.\<close>

datatype 'o ColorValue = ColorString string | OpaqueColorValue 'o

section \<open>Styles of react-native\<close>

datatype 'o StyleValue = StyleString string | StyleNumber number | StyleOther 'o

text \<open>
  \<^verbatim>\<open>StyleProp<T>\<close>: a style object, a falsy value (\<^verbatim>\<open>undefined\<close>, \<^verbatim>\<open>null\<close>, \<^verbatim>\<open>false\<close>), or
  an array of these, nested at will.
\<close>

datatype 'o StyleProp =
    Falsy
  | StyleObject "string \<rightharpoonup> 'o StyleValue"
  | StyleArray "'o StyleProp list"

text \<open>
  How react-native resolves a style prop (\<^verbatim>\<open>StyleSheet.flatten\<close>): a falsy style is no
  style, an object is itself, and the entries of an array are merged from left to right
  into a fresh object, a later entry overwriting the keys of the earlier ones.
\<close>

fun flattenStyle :: "'o StyleProp \<Rightarrow> (string \<rightharpoonup> 'o StyleValue) option" where
  "flattenStyle Falsy = None"
| "flattenStyle (StyleObject m) = Some m"
| "flattenStyle (StyleArray xs) =
     Some (fold (\<lambda>x result. case flattenStyle x of None \<Rightarrow> result | Some c \<Rightarrow> result ++ c)
             xs Map.empty)"

definition effectiveStyle :: "'o StyleProp \<Rightarrow> string \<Rightarrow> 'o StyleValue option" where
  "effectiveStyle s key = (case flattenStyle s of None \<Rightarrow> None | Some m \<Rightarrow> m key)"

section \<open>Identifiers: nanoid and useMemo\<close>

text \<open>
  \<^verbatim>\<open>nanoid()\<close> of \<^verbatim>\<open>nanoid/non-secure\<close> draws a random string. The random source is
  explicit state: \<open>outputs g k\<close> is the string the \<open>k\<close>-th call returns, \<open>used g\<close> counts
  the calls made so far.
\<close>

record Random =
  outputs :: "nat \<Rightarrow> string"
  used :: nat

definition nanoid :: "Random \<Rightarrow> string \<times> Random" where
  "nanoid g = (outputs g (used g), g\<lparr>used := Suc (used g)\<rparr>)"

text \<open>
  The memo cell React keeps for one \<^verbatim>\<open>useMemo\<close> call of one mounted instance: \<open>None\<close>
  before the first render, afterwards the value and the dependency array it was
  computed for.
\<close>

type_synonym 'a hook = "('a \<times> nat list) option"

text \<open>React compares dependency arrays entry by entry.\<close>

definition areHookInputsEqual :: "nat list \<Rightarrow> nat list \<Rightarrow> bool" where
  "areHookInputsEqual nextDeps prevDeps = list_all (\<lambda>(a, b). a = b) (zip nextDeps prevDeps)"

text \<open>
  \<^verbatim>\<open>useMemo(factory, deps)\<close>: on mount the factory runs and its value is stored; on a
  later render the stored value is returned when the dependencies are unchanged, and the
  factory runs again otherwise.
\<close>

definition useMemo ::
  "(Random \<Rightarrow> 'a \<times> Random) \<Rightarrow> nat list \<Rightarrow> 'a hook \<Rightarrow> Random \<Rightarrow> 'a \<times> 'a hook \<times> Random" where
  "useMemo factory deps h g =
     (case h of
        None \<Rightarrow> (case factory g of (v, g') \<Rightarrow> (v, Some (v, deps), g'))
      | Some (v, prevDeps) \<Rightarrow>
          if areHookInputsEqual deps prevDeps then (v, h, g)
          else (case factory g of (v', g') \<Rightarrow> (v', Some (v', deps), g')))"

section \<open>The native bridge\<close>

datatype SpacerType = fixedSpacer | fluidSpacer

text \<open>The \<^verbatim>\<open>View\<close> element of react-native, with its style and its children.\<close>

datatype 'o ViewElement = View "'o StyleProp" "'o ReactNode"

text \<open>
  Modelled from the spec: the props of \<^verbatim>\<open>RouterToolbarItem\<close>, declared in \<^verbatim>\<open>./native\<close>,
  which is not among the sources. The fields are those of the per-item record of the
  native bridge contract, and the children the item encloses.
\<close>

record 'o RouterToolbarItemProps =
  "identifier" :: string
  title :: "string option"
  systemImageName :: "string option"
  width :: "number option"
  type :: "SpacerType option"
  onSelected :: "'o option"
  tintColor :: "'o ColorValue option"
  hidden :: "bool option"
  sharesBackground :: "bool option"
  hidesSharedBackground :: "bool option"
  children :: "'o ViewElement option"

datatype 'o ItemElement = RouterToolbarItem (itemProps: "'o RouterToolbarItemProps")

section \<open>Toolbar.Spacer\<close>

record ToolbarSpacerProps =
  width :: "number option"
  hidden :: "bool option"
  sharesBackground :: "bool option"
  hidesSharedBackground :: "bool option"

text \<open>
  \<^verbatim>\<open>({ width, ...rest }) => <RouterToolbarItem {...rest} identifier={id}
       type={width ? 'fixedSpacer' : 'fluidSpacer'} width={width} />\<close>
\<close>

definition ToolbarSpacer ::
  "ToolbarSpacerProps \<Rightarrow> string hook \<Rightarrow> Random \<Rightarrow> 'o ItemElement \<times> string hook \<times> Random" where
  "ToolbarSpacer p h g =
     (case useMemo nanoid [] h g of
        (ident, h', g') \<Rightarrow>
          (RouterToolbarItem
             \<lparr> RouterToolbarItemProps.identifier = ident,
               RouterToolbarItemProps.title = None,
               RouterToolbarItemProps.systemImageName = None,
               RouterToolbarItemProps.width = ToolbarSpacerProps.width p,
               RouterToolbarItemProps.type =
                 Some (if truthy (ToolbarSpacerProps.width p) then fixedSpacer else fluidSpacer),
               RouterToolbarItemProps.onSelected = None,
               RouterToolbarItemProps.tintColor = None,
               RouterToolbarItemProps.hidden = ToolbarSpacerProps.hidden p,
               RouterToolbarItemProps.sharesBackground = ToolbarSpacerProps.sharesBackground p,
               RouterToolbarItemProps.hidesSharedBackground =
                 ToolbarSpacerProps.hidesSharedBackground p,
               RouterToolbarItemProps.children = None \<rparr>,
           h', g'))"

section \<open>Toolbar.Button\<close>

record 'o ToolbarButtonProps =
  children :: "'o ReactNode"
  sf :: "string option"
  width :: "number option"
  onPress :: "'o option"
  tintColor :: "'o ColorValue option"
  hidden :: "bool option"
  sharesBackground :: "bool option"
  hidesSharedBackground :: "bool option"

text \<open>
  \<^verbatim>\<open>({ children, sf, onPress, ...rest }) => <RouterToolbarItem {...rest}
       onSelected={onPress} identifier={id} title={String(children)}
       systemImageName={sf} />\<close>
\<close>

definition ToolbarButton ::
  "(number \<Rightarrow> string) \<Rightarrow> 'o ToolbarButtonProps \<Rightarrow> string hook \<Rightarrow> Random
     \<Rightarrow> 'o ItemElement \<times> string hook \<times> Random" where
  "ToolbarButton nts p h g =
     (case useMemo nanoid [] h g of
        (ident, h', g') \<Rightarrow>
          (RouterToolbarItem
             \<lparr> RouterToolbarItemProps.identifier = ident,
               RouterToolbarItemProps.title = Some (String nts (ToolbarButtonProps.children p)),
               RouterToolbarItemProps.systemImageName = sf p,
               RouterToolbarItemProps.width = ToolbarButtonProps.width p,
               RouterToolbarItemProps.type = None,
               RouterToolbarItemProps.onSelected = onPress p,
               RouterToolbarItemProps.tintColor = ToolbarButtonProps.tintColor p,
               RouterToolbarItemProps.hidden = ToolbarButtonProps.hidden p,
               RouterToolbarItemProps.sharesBackground = ToolbarButtonProps.sharesBackground p,
               RouterToolbarItemProps.hidesSharedBackground =
                 ToolbarButtonProps.hidesSharedBackground p,
               RouterToolbarItemProps.children = None \<rparr>,
           h', g'))"

section \<open>Toolbar.View\<close>

record 'o ToolbarViewProps =
  hidesSharedBackground :: "bool option"
  sharesBackground :: "bool option"
  children :: "'o ReactNode"
  hidden :: "bool option"
  style :: "'o StyleProp"

text \<open>
  \<^verbatim>\<open>({ children, style, ...rest }) => <RouterToolbarItem {...rest} identifier={id}>
       <View style={[style, { position: 'absolute' }]}>{children}</View>
     </RouterToolbarItem>\<close>
\<close>

definition ToolbarView ::
  "'o ToolbarViewProps \<Rightarrow> string hook \<Rightarrow> Random \<Rightarrow> 'o ItemElement \<times> string hook \<times> Random" where
  "ToolbarView p h g =
     (case useMemo nanoid [] h g of
        (ident, h', g') \<Rightarrow>
          (RouterToolbarItem
             \<lparr> RouterToolbarItemProps.identifier = ident,
               RouterToolbarItemProps.title = None,
               RouterToolbarItemProps.systemImageName = None,
               RouterToolbarItemProps.width = None,
               RouterToolbarItemProps.type = None,
               RouterToolbarItemProps.onSelected = None,
               RouterToolbarItemProps.tintColor = None,
               RouterToolbarItemProps.hidden = ToolbarViewProps.hidden p,
               RouterToolbarItemProps.sharesBackground = ToolbarViewProps.sharesBackground p,
               RouterToolbarItemProps.hidesSharedBackground =
                 ToolbarViewProps.hidesSharedBackground p,
               RouterToolbarItemProps.children =
                 Some (View (StyleArray [style p,
                                         StyleObject [''position'' \<mapsto> StyleString ''absolute'']])
                            (ToolbarViewProps.children p)) \<rparr>,
           h', g'))"

text \<open>The style the item's \<^verbatim>\<open>View\<close> child is given, if the item has such a child.\<close>

definition containerStyle :: "'o ItemElement \<Rightarrow> 'o StyleProp option" where
  "containerStyle el =
     (case RouterToolbarItemProps.children (itemProps el) of
        None \<Rightarrow> None
      | Some (View s c) \<Rightarrow> Some s)"

text \<open>The position the container ends up with, once react-native has resolved its style.\<close>

definition effectivePosition :: "'o ItemElement \<Rightarrow> 'o StyleValue option" where
  "effectivePosition el =
     (case containerStyle el of None \<Rightarrow> None | Some s \<Rightarrow> effectiveStyle s ''position'')"

section \<open>The root Toolbar\<close>

record 'o ToolbarProps =
  children :: "'o ReactNode"

text \<open>The value of \<^verbatim>\<open>InternalLinkPreviewContext\<close>, as the object literal in the source.\<close>

record PreviewContextValue =
  isVisible :: bool
  href :: string

datatype 'o HostElement = RouterToolbarHost (hostProps: "'o ToolbarProps")

datatype 'o ContextElement =
  InternalLinkPreviewContext (contextValue: PreviewContextValue) (contextChild: "'o HostElement")

text \<open>
  \<^verbatim>\<open>(props) => <InternalLinkPreviewContext value={{ isVisible: false, href: '' }}>
       <RouterToolbarHost {...props} />
     </InternalLinkPreviewContext>\<close>
\<close>

definition ToolbarHost :: "'o ToolbarProps \<Rightarrow> 'o ContextElement" where
  "ToolbarHost props =
     InternalLinkPreviewContext \<lparr> isVisible = False, href = '''' \<rparr> (RouterToolbarHost props)"

section \<open>The menu re-exports and the Toolbar object\<close>

text \<open>
  \<^verbatim>\<open>LinkMenu\<close> and \<^verbatim>\<open>LinkMenuAction\<close> are imported from \<^verbatim>\<open>../link/elements\<close>; the
  module binds its own names to the imported values. These are of any type \<open>'m\<close> and
  \<open>'a\<close>: with references to the component objects for them, equality is identity of
  reference.
\<close>

definition ToolbarMenu :: "'m \<Rightarrow> 'm" where
  "ToolbarMenu LinkMenu = LinkMenu"

definition ToolbarMenuAction :: "'a \<Rightarrow> 'a" where
  "ToolbarMenuAction LinkMenuAction = LinkMenuAction"

text \<open>
  \<^verbatim>\<open>Object.assign(ToolbarHost, { Menu, MenuAction, Button, Spacer, View })\<close>: the host
  function itself (\<open>call\<close>), with the five components as its properties.
\<close>

record ('h, 'm, 'a, 'b, 's, 'v) ToolbarObject =
  call :: 'h
  Menu :: 'm
  MenuAction :: 'a
  Button :: 'b
  Spacer :: 's
  View :: 'v

definition Toolbar ::
  "'m \<Rightarrow> 'a \<Rightarrow>
   ('o ToolbarProps \<Rightarrow> 'o ContextElement, 'm, 'a,
    (number \<Rightarrow> string) \<Rightarrow> 'o ToolbarButtonProps \<Rightarrow> string hook \<Rightarrow> Random
      \<Rightarrow> 'o ItemElement \<times> string hook \<times> Random,
    ToolbarSpacerProps \<Rightarrow> string hook \<Rightarrow> Random \<Rightarrow> 'o ItemElement \<times> string hook \<times> Random,
    'o ToolbarViewProps \<Rightarrow> string hook \<Rightarrow> Random \<Rightarrow> 'o ItemElement \<times> string hook \<times> Random)
   ToolbarObject" where
  "Toolbar LinkMenu LinkMenuAction =
     \<lparr> call = ToolbarHost,
       Menu = ToolbarMenu LinkMenu,
       MenuAction = ToolbarMenuAction LinkMenuAction,
       Button = ToolbarButton,
       Spacer = ToolbarSpacer,
       View = ToolbarView \<rparr>"

section \<open>Instances: mounting and re-rendering\<close>

text \<open>
  One mounted instance of a component keeps its memo cell from render to render. Each
  render has its own props, and finds the random source in whatever state the renders of
  other components have left it. The identifiers of the successive renders:
\<close>

fun rerenders ::
  "('p \<Rightarrow> string hook \<Rightarrow> Random \<Rightarrow> 'o ItemElement \<times> string hook \<times> Random)
     \<Rightarrow> string hook \<Rightarrow> ('p \<times> Random) list \<Rightarrow> string list" where
  "rerenders component h [] = []"
| "rerenders component h ((p, g) # rest) =
     (case component p h g of
        (el, h', g') \<Rightarrow>
          RouterToolbarItemProps.identifier (itemProps el) # rerenders component h' rest)"

text \<open>The children of a toolbar that this module renders itself.\<close>

datatype 'o ToolbarChild =
    ButtonChild "'o ToolbarButtonProps"
  | SpacerChild ToolbarSpacerProps
  | ViewChild "'o ToolbarViewProps"

fun render ::
  "(number \<Rightarrow> string) \<Rightarrow> 'o ToolbarChild \<Rightarrow> string hook \<Rightarrow> Random
     \<Rightarrow> 'o ItemElement \<times> string hook \<times> Random" where
  "render nts (ButtonChild p) h g = ToolbarButton nts p h g"
| "render nts (SpacerChild p) h g = ToolbarSpacer p h g"
| "render nts (ViewChild p) h g = ToolbarView p h g"

text \<open>
  Mounting a tree renders its children in order, each a fresh instance (an empty memo
  cell), the random source passing from one to the next.
\<close>

fun mountAll ::
  "(number \<Rightarrow> string) \<Rightarrow> 'o ToolbarChild list \<Rightarrow> Random \<Rightarrow> 'o ItemElement list \<times> Random" where
  "mountAll nts [] g = ([], g)"
| "mountAll nts (c # cs) g =
     (case render nts c None g of
        (el, h, g') \<Rightarrow> (case mountAll nts cs g' of (els, g'') \<Rightarrow> (el # els, g'')))"

definition treeIdentifiers ::
  "(number \<Rightarrow> string) \<Rightarrow> 'o ToolbarChild list \<Rightarrow> Random \<Rightarrow> string list" where
  "treeIdentifiers nts cs g =
     map (\<lambda>el. RouterToolbarItemProps.identifier (itemProps el)) (fst (mountAll nts cs g))"

section \<open>Inputs of the examples\<close>

definition searchButton :: "unit ToolbarButtonProps" where
  "searchButton =
     \<lparr> ToolbarButtonProps.children = Str ''Search'', sf = None,
       ToolbarButtonProps.width = None, onPress = None,
       ToolbarButtonProps.tintColor = None, ToolbarButtonProps.hidden = None,
       ToolbarButtonProps.sharesBackground = None,
       ToolbarButtonProps.hidesSharedBackground = None \<rparr>"

definition flexibleSpacer :: ToolbarSpacerProps where
  "flexibleSpacer =
     \<lparr> ToolbarSpacerProps.width = None, ToolbarSpacerProps.hidden = None,
       ToolbarSpacerProps.sharesBackground = None,
       ToolbarSpacerProps.hidesSharedBackground = None \<rparr>"

text \<open>A random source whose draws all land on the same 21 characters.\<close>

definition repeatingSource :: Random where
  "repeatingSource = \<lparr> outputs = (\<lambda>k. ''V1StGXR8_Z5jdHi6B-myT''), used = 0 \<rparr>"

text \<open>A random source whose draws are pairwise different.\<close>

definition freshSource :: Random where
  "freshSource = \<lparr> outputs = (\<lambda>k. replicate (Suc k) CHR ''u''), used = 0 \<rparr>"

text \<open>
  No example has a number among the children of a Button, so this stand-in for
  \<^verbatim>\<open>Number::toString\<close> is never applied.
\<close>

definition toStringOfNoNumber :: "number \<Rightarrow> string" where
  "toStringOfNoNumber n = []"

section \<open>The memo cell\<close>

lemma useMemo_mount:
  "useMemo nanoid [] None g =
     (outputs g (used g), Some (outputs g (used g), []), g\<lparr>used := Suc (used g)\<rparr>)"
  by (simp add: useMemo_def nanoid_def)

lemma useMemo_kept:
  "useMemo nanoid [] (Some (v, d)) g = (v, Some (v, d), g)"
  by (simp add: useMemo_def areHookInputsEqual_def)

section \<open>What each component hands to the native item\<close>

lemma ToolbarSpacer_type:
  "RouterToolbarItemProps.type (itemProps (fst (ToolbarSpacer p h g))) =
     Some (if truthy (ToolbarSpacerProps.width p) then fixedSpacer else fluidSpacer)"
  by (simp add: ToolbarSpacer_def split: prod.splits)

lemma ToolbarSpacer_width:
  "RouterToolbarItemProps.width (itemProps (fst (ToolbarSpacer p h g))) =
     ToolbarSpacerProps.width p"
  by (simp add: ToolbarSpacer_def split: prod.splits)

text \<open>The spacer is fixed exactly for a width that is a truthy number.\<close>

lemma ToolbarSpacer_fixed_iff:
  "(RouterToolbarItemProps.type (itemProps (fst (ToolbarSpacer p h g))) = Some fixedSpacer) =
     (\<exists>n. ToolbarSpacerProps.width p = Some n \<and> ToBoolean n)"
  by (cases "ToolbarSpacerProps.width p") (simp_all add: ToolbarSpacer_type truthy_def)

lemma ToolbarButton_item:
  "itemProps (fst (ToolbarButton nts p h g)) =
     \<lparr> RouterToolbarItemProps.identifier = fst (useMemo nanoid [] h g),
       RouterToolbarItemProps.title = Some (String nts (ToolbarButtonProps.children p)),
       RouterToolbarItemProps.systemImageName = sf p,
       RouterToolbarItemProps.width = ToolbarButtonProps.width p,
       RouterToolbarItemProps.type = None,
       RouterToolbarItemProps.onSelected = onPress p,
       RouterToolbarItemProps.tintColor = ToolbarButtonProps.tintColor p,
       RouterToolbarItemProps.hidden = ToolbarButtonProps.hidden p,
       RouterToolbarItemProps.sharesBackground = ToolbarButtonProps.sharesBackground p,
       RouterToolbarItemProps.hidesSharedBackground = ToolbarButtonProps.hidesSharedBackground p,
       RouterToolbarItemProps.children = None \<rparr>"
  by (simp add: ToolbarButton_def split: prod.splits)

lemma containerStyle_ToolbarView:
  "containerStyle (fst (ToolbarView p h g)) =
     Some (StyleArray [style p, StyleObject [''position'' \<mapsto> StyleString ''absolute'']])"
  by (simp add: ToolbarView_def containerStyle_def split: prod.splits)

text \<open>In a two-entry style array whose last entry is an object, that object's keys win.\<close>

lemma flattenStyle_pair:
  "flattenStyle (StyleArray [s, StyleObject m]) =
     Some ((case flattenStyle s of None \<Rightarrow> Map.empty | Some c \<Rightarrow> c) ++ m)"
  by (simp split: option.splits)

section \<open>Identifiers over the life of an instance\<close>

lemma rerenders_stable:
  assumes "\<And>p g. RouterToolbarItemProps.identifier
                    (itemProps (fst (component p (Some (v, d)) g))) = v"
    and "\<And>p g. fst (snd (component p (Some (v, d)) g)) = Some (v, d)"
  shows "rerenders component (Some (v, d)) rs = replicate (length rs) v"
proof (induction rs)
  case Nil
  show ?case by simp
next
  case (Cons r rs)
  obtain p g where r: "r = (p, g)" by (cases r)
  obtain el h' g' where c: "component p (Some (v, d)) g = (el, h', g')"
    by (cases "component p (Some (v, d)) g")
  from assms(1)[of p g] c have "RouterToolbarItemProps.identifier (itemProps el) = v" by simp
  moreover from assms(2)[of p g] c have "h' = Some (v, d)" by simp
  ultimately show ?case using Cons.IH r c by simp
qed

lemma rerenders_from_mount:
  assumes "\<And>p g v d. RouterToolbarItemProps.identifier
                        (itemProps (fst (component p (Some (v, d)) g))) = v"
    and "\<And>p g v d. fst (snd (component p (Some (v, d)) g)) = Some (v, d)"
    and "RouterToolbarItemProps.identifier (itemProps (fst (component p None g))) =
           outputs g (used g)"
    and "fst (snd (component p None g)) = Some (outputs g (used g), [])"
  shows "rerenders component None ((p, g) # rs) =
           replicate (Suc (length rs)) (outputs g (used g))"
proof -
  obtain el h' g' where c: "component p None g = (el, h', g')"
    by (cases "component p None g")
  with assms(3,4) have "RouterToolbarItemProps.identifier (itemProps el) = outputs g (used g)"
    and "h' = Some (outputs g (used g), [])" by simp_all
  then show ?thesis
    using c rerenders_stable[of component "outputs g (used g)" "[]" rs, OF assms(1) assms(2)]
    by simp
qed

lemma Button_rerenders:
  "rerenders (ToolbarButton nts) None ((p, g) # rs) =
     replicate (Suc (length rs)) (outputs g (used g))"
  by (rule rerenders_from_mount) (simp_all add: ToolbarButton_def useMemo_mount useMemo_kept)

lemma Spacer_rerenders:
  "rerenders ToolbarSpacer None ((p, g) # rs) =
     replicate (Suc (length rs)) (outputs g (used g))"
  by (rule rerenders_from_mount) (simp_all add: ToolbarSpacer_def useMemo_mount useMemo_kept)

lemma View_rerenders:
  "rerenders ToolbarView None ((p, g) # rs) =
     replicate (Suc (length rs)) (outputs g (used g))"
  by (rule rerenders_from_mount) (simp_all add: ToolbarView_def useMemo_mount useMemo_kept)

section \<open>Identifiers over a mounted tree\<close>

lemma render_mount:
  "render nts c None g = (el, h, g') \<Longrightarrow>
     RouterToolbarItemProps.identifier (itemProps el) = outputs g (used g)
     \<and> g' = g\<lparr>used := Suc (used g)\<rparr>"
  by (cases c) (auto simp: ToolbarButton_def ToolbarSpacer_def ToolbarView_def useMemo_mount)

lemma mountAll_identifiers:
  "map (\<lambda>el. RouterToolbarItemProps.identifier (itemProps el)) (fst (mountAll nts cs g)) =
     map (outputs g) [used g ..< used g + length cs]"
proof (induction cs arbitrary: g)
  case Nil
  show ?case by simp
next
  case (Cons c cs)
  obtain el h g' where r: "render nts c None g = (el, h, g')"
    by (cases "render nts c None g")
  from render_mount[OF r]
  have el: "RouterToolbarItemProps.identifier (itemProps el) = outputs g (used g)"
    and g': "g' = g\<lparr>used := Suc (used g)\<rparr>" by simp_all
  obtain els g'' where m: "mountAll nts cs g' = (els, g'')"
    by (cases "mountAll nts cs g'")
  have "map (\<lambda>el. RouterToolbarItemProps.identifier (itemProps el)) (fst (mountAll nts cs g')) =
          map (outputs g') [used g' ..< used g' + length cs]"
    by (rule Cons.IH)
  with m g' have tl: "map (\<lambda>el. RouterToolbarItemProps.identifier (itemProps el)) els =
          map (outputs g) [Suc (used g) ..< Suc (used g) + length cs]"
    by simp
  have upt: "[used g ..< used g + length (c # cs)] =
               used g # [Suc (used g) ..< Suc (used g) + length cs]"
    by (simp add: upt_conv_Cons del: upt_Suc)
  have "fst (mountAll nts (c # cs) g) = el # els"
    using r m by simp
  then show ?case
    unfolding upt using el tl by simp
qed

text \<open>The identifiers of a mounted tree are the successive draws of the random source.\<close>

lemma treeIdentifiers_eq:
  "treeIdentifiers nts cs g = map (outputs g) [used g ..< used g + length cs]"
  by (simp add: treeIdentifiers_def mountAll_identifiers)

section \<open>The claims\<close>

text \<open>
  C1. The claim: the Spacer is classified \<^verbatim>\<open>fixedSpacer\<close> whenever a width is provided,
  the width 0 included, and \<^verbatim>\<open>fluidSpacer\<close> otherwise, the width being forwarded with the
  tag. The source tests \<^verbatim>\<open>width ? ... : ...\<close>, and 0 is falsy: a Spacer given the width 0
  is handed on as \<^verbatim>\<open>fluidSpacer\<close>, with its width 0.
\<close>

theorem ToolbarSpacer_zero_width_is_fluid:
  "RouterToolbarItemProps.type
     (itemProps (fst (ToolbarSpacer (p\<lparr>ToolbarSpacerProps.width := Some (Finite 0)\<rparr>) h g)))
     = Some fluidSpacer
   \<and> RouterToolbarItemProps.width
     (itemProps (fst (ToolbarSpacer (p\<lparr>ToolbarSpacerProps.width := Some (Finite 0)\<rparr>) h g)))
     = Some (Finite 0)"
  by (simp add: ToolbarSpacer_type ToolbarSpacer_width truthy_def)

text \<open>
  C2. A Spacer rendered with the width 20 gives a native item of type \<^verbatim>\<open>fixedSpacer\<close> and
  width 20; a Spacer rendered with no width gives one of type \<^verbatim>\<open>fluidSpacer\<close> and no
  width. This holds whatever the other props, the memo cell and the random source are.
\<close>

theorem ToolbarSpacer_width_20_and_absent:
  "RouterToolbarItemProps.type
     (itemProps (fst (ToolbarSpacer (p\<lparr>ToolbarSpacerProps.width := Some (Finite 20)\<rparr>) h g)))
     = Some fixedSpacer
   \<and> RouterToolbarItemProps.width
     (itemProps (fst (ToolbarSpacer (p\<lparr>ToolbarSpacerProps.width := Some (Finite 20)\<rparr>) h g)))
     = Some (Finite 20)
   \<and> RouterToolbarItemProps.type
     (itemProps (fst (ToolbarSpacer (p\<lparr>ToolbarSpacerProps.width := None\<rparr>) h g)))
     = Some fluidSpacer
   \<and> RouterToolbarItemProps.width
     (itemProps (fst (ToolbarSpacer (p\<lparr>ToolbarSpacerProps.width := None\<rparr>) h g)))
     = None"
  by (simp add: ToolbarSpacer_type ToolbarSpacer_width truthy_def)

text \<open>
  C3. A Button rendered with the children \<^verbatim>\<open>"Search"\<close> and no \<^verbatim>\<open>sf\<close> hands the title
  \<^verbatim>\<open>"Search"\<close> to the native item, whatever its other props.
\<close>

theorem ToolbarButton_title_Search:
  "RouterToolbarItemProps.title
     (itemProps (fst (ToolbarButton nts
        (p\<lparr>ToolbarButtonProps.children := Str ''Search'', sf := None\<rparr>) h g)))
   = Some ''Search''"
  by (simp add: ToolbarButton_item)

text \<open>
  C4. Whatever style the caller gives a View, the container gets the style array
  \<^verbatim>\<open>[style, { position: 'absolute' }]\<close>, the forced position after the caller's style, and
  the position this array resolves to is \<^verbatim>\<open>absolute\<close>.
\<close>

theorem ToolbarView_position_absolute:
  "containerStyle (fst (ToolbarView p h g)) =
     Some (StyleArray [style p, StyleObject [''position'' \<mapsto> StyleString ''absolute'']])
   \<and> effectivePosition (fst (ToolbarView p h g)) = Some (StyleString ''absolute'')"
  by (simp add: effectivePosition_def containerStyle_ToolbarView effectiveStyle_def
        flattenStyle_pair del: flattenStyle.simps)

text \<open>
  C5, as amended. The identifier of an instance is the string \<^verbatim>\<open>nanoid()\<close> returned at its
  mount, and the components check nothing about it. So the identifiers of two instances
  mounted in one tree (two Buttons, or any two of Button, Spacer and View) differ exactly
  when the two draws differ.
\<close>

theorem identifiers_differ_iff_draws_differ:
  "i < length cs \<Longrightarrow> j < length cs \<Longrightarrow>
     (treeIdentifiers nts cs g ! i \<noteq> treeIdentifiers nts cs g ! j) =
       (outputs g (used g + i) \<noteq> outputs g (used g + j))"
  by (simp add: treeIdentifiers_eq)

text \<open>Two Buttons around a Spacer, on a source of pairwise different draws.\<close>

theorem identifiers_differ_witness:
  "length [ButtonChild searchButton, SpacerChild flexibleSpacer, ButtonChild searchButton] = 3
   \<and> treeIdentifiers toStringOfNoNumber
        [ButtonChild searchButton, SpacerChild flexibleSpacer, ButtonChild searchButton]
        freshSource ! 0
     \<noteq> treeIdentifiers toStringOfNoNumber
        [ButtonChild searchButton, SpacerChild flexibleSpacer, ButtonChild searchButton]
        freshSource ! 2"
  using identifiers_differ_iff_draws_differ
    [of 0 "[ButtonChild searchButton, SpacerChild flexibleSpacer, ButtonChild searchButton]" 2
        toStringOfNoNumber freshSource]
  by (simp add: freshSource_def)

text \<open>
  C5 as the claim states it, that two Buttons of one tree never share an identifier, fails
  when the two draws coincide: both Buttons then carry the same identifier.
\<close>

theorem identifiers_can_collide:
  "treeIdentifiers toStringOfNoNumber [ButtonChild searchButton, ButtonChild searchButton]
     repeatingSource = [''V1StGXR8_Z5jdHi6B-myT'', ''V1StGXR8_Z5jdHi6B-myT'']
   \<and> \<not> distinct (treeIdentifiers toStringOfNoNumber
          [ButtonChild searchButton, ButtonChild searchButton] repeatingSource)"
  by (simp add: treeIdentifiers_def ToolbarButton_def useMemo_mount repeatingSource_def)

text \<open>
  C6. A Button, Spacer or View instance that is mounted and then rendered again any number
  of times, with any props and with the random source in any state at each render, shows
  the same identifier at every render: the one drawn at the mount.
\<close>

theorem identifier_stable_across_rerenders:
  "rerenders (ToolbarButton nts) None ((pb, g) # rb) =
     replicate (Suc (length rb)) (outputs g (used g))
   \<and> rerenders ToolbarSpacer None ((ps, g) # rs) =
     replicate (Suc (length rs)) (outputs g (used g))
   \<and> rerenders ToolbarView None ((pv, g) # rv) =
     replicate (Suc (length rv)) (outputs g (used g))"
  by (simp only: Button_rerenders Spacer_rerenders View_rerenders simp_thms)

text \<open>
  C7. \<^verbatim>\<open>ToolbarMenu\<close> and \<^verbatim>\<open>ToolbarMenuAction\<close>, and with them \<^verbatim>\<open>Toolbar.Menu\<close> and
  \<^verbatim>\<open>Toolbar.MenuAction\<close>, are the imported \<^verbatim>\<open>LinkMenu\<close> and \<^verbatim>\<open>LinkMenuAction\<close> themselves,
  so whatever renders a component (\<open>renderer\<close>) does with \<^verbatim>\<open>Toolbar.Menu\<close> what it does
  with \<^verbatim>\<open>LinkMenu\<close>.
\<close>

theorem Toolbar_Menu_is_LinkMenu:
  "ToolbarMenu LinkMenu = LinkMenu
   \<and> ToolbarMenuAction LinkMenuAction = LinkMenuAction
   \<and> Menu (Toolbar LinkMenu LinkMenuAction) = LinkMenu
   \<and> MenuAction (Toolbar LinkMenu LinkMenuAction) = LinkMenuAction
   \<and> renderer (Menu (Toolbar LinkMenu LinkMenuAction)) menuProps = renderer LinkMenu menuProps"
  by (simp add: Toolbar_def ToolbarMenu_def ToolbarMenuAction_def)

text \<open>
  C8. For every props, the root Toolbar puts the native host inside the preview context
  provider with the value \<^verbatim>\<open>{ isVisible: false, href: '' }\<close>, and the native host receives
  the props as they came.
\<close>

theorem ToolbarHost_context_and_props:
  "ToolbarHost props =
     InternalLinkPreviewContext \<lparr> isVisible = False, href = '''' \<rparr> (RouterToolbarHost props)
   \<and> isVisible (contextValue (ToolbarHost props)) = False
   \<and> href (contextValue (ToolbarHost props)) = ''''
   \<and> hostProps (contextChild (ToolbarHost props)) = props"
  by (simp add: ToolbarHost_def)

text \<open>
  C9. A Button hands \<^verbatim>\<open>width\<close>, \<^verbatim>\<open>tintColor\<close>, \<^verbatim>\<open>hidden\<close>, \<^verbatim>\<open>sharesBackground\<close> and
  \<^verbatim>\<open>hidesSharedBackground\<close> to the native item unchanged, \<^verbatim>\<open>sf\<close> as
  \<^verbatim>\<open>systemImageName\<close> and \<^verbatim>\<open>onPress\<close> as \<^verbatim>\<open>onSelected\<close>.
\<close>

theorem ToolbarButton_forwards_props:
  "RouterToolbarItemProps.width (itemProps (fst (ToolbarButton nts p h g))) =
     ToolbarButtonProps.width p
   \<and> RouterToolbarItemProps.tintColor (itemProps (fst (ToolbarButton nts p h g))) =
     ToolbarButtonProps.tintColor p
   \<and> RouterToolbarItemProps.hidden (itemProps (fst (ToolbarButton nts p h g))) =
     ToolbarButtonProps.hidden p
   \<and> RouterToolbarItemProps.sharesBackground (itemProps (fst (ToolbarButton nts p h g))) =
     ToolbarButtonProps.sharesBackground p
   \<and> RouterToolbarItemProps.hidesSharedBackground (itemProps (fst (ToolbarButton nts p h g))) =
     ToolbarButtonProps.hidesSharedBackground p
   \<and> RouterToolbarItemProps.systemImageName (itemProps (fst (ToolbarButton nts p h g))) = sf p
   \<and> RouterToolbarItemProps.onSelected (itemProps (fst (ToolbarButton nts p h g))) = onPress p"
  by (simp add: ToolbarButton_item)

text \<open>
  C10. A Button rendered without children hands the title \<^verbatim>\<open>"undefined"\<close> to the native
  item: the title is present, and it is that nine-letter string.
\<close>

theorem ToolbarButton_title_undefined:
  "RouterToolbarItemProps.title
     (itemProps (fst (ToolbarButton nts (p\<lparr>ToolbarButtonProps.children := Undefined\<rparr>) h g)))
   = Some ''undefined''"
  by (simp add: ToolbarButton_item)

end
